theory Spec2Isabelle
  imports Complex_Main "HOL-Library.Sublist"
begin

section \<open>Data model of the scenario manager\<close>

text \<open>
  The embedded module is \<^verbatim>\<open>leaderboard/scenarios/scenario_manager.py\<close>, class
  \<^verbatim>\<open>ScenarioManager\<close>. Python names starting with an underscore lose it
  (\<^verbatim>\<open>_tick_scenario\<close> is \<open>tick_scenario\<close>, \<^verbatim>\<open>self._running\<close> is the field
  \<open>running\<close>).

  The status of a py_trees behaviour tree. The source compares it with \<^verbatim>\<open>RUNNING\<close>,
  \<^verbatim>\<open>SUCCESS\<close> and \<^verbatim>\<open>FAILURE\<close> and keeps an \<^verbatim>\<open>else\<close> branch for what is left,
  which in py_trees is \<^verbatim>\<open>INVALID\<close>.
\<close>

datatype Status = INVALID | RUNNING | SUCCESS | FAILURE

text \<open>
  Exceptions of the module: the \<^verbatim>\<open>RuntimeError\<close> raised by the signal handler, the
  \<^verbatim>\<open>IndexError\<close> of \<^verbatim>\<open>self.ego_vehicles[0]\<close> on an empty list, the
  \<^verbatim>\<open>TypeError\<close> of an arithmetic comparison with \<^verbatim>\<open>None\<close>, and the
  \<^verbatim>\<open>OverflowError\<close> of \<^verbatim>\<open>float\<close> on an integer beyond the range of a double.
\<close>

datatype error = RuntimeError string | IndexError | TypeError | OverflowError

text \<open>
  A \<^verbatim>\<open>carla.Timestamp\<close>. Its \<^verbatim>\<open>elapsed_seconds\<close> is a float in the source; here it
  is a real number, so only the order of the values is modelled (no rounding, no NaN).
\<close>

record Timestamp =
  frame :: nat
  elapsed_seconds :: real

text \<open>
  The watchdog is a collaborator (\<^verbatim>\<open>srunner.scenariomanager.watchdog.Watchdog\<close>), of
  which the manager calls \<^verbatim>\<open>start\<close>, \<^verbatim>\<open>update\<close>, \<^verbatim>\<open>stop\<close> and \<^verbatim>\<open>get_status\<close>.
  Only its liveness flag is state here: the flag is written by the watchdog's own timer
  thread, never by the manager.
\<close>

record Watchdog =
  alive :: bool

definition get_status :: "Watchdog \<Rightarrow> bool" where
  "get_status w = alive w"

text \<open>
  The fields of \<^verbatim>\<open>ScenarioManager\<close> that the embedded methods read or write.
  \<open>agent\<close> is \<^verbatim>\<open>self._agent\<close> (\<open>None\<close> when no agent is attached), \<open>tree_status\<close> is
  \<^verbatim>\<open>self.scenario_tree.status\<close>, \<open>ego_vehicles\<close> the list of ego actors (their ids),
  \<open>debug_mode\<close> an integer (\<^verbatim>\<open>False\<close> is 0).
\<close>

record 'a ScenarioManager =
  debug_mode :: int
  challenge_mode :: bool
  agent :: "'a option"
  running :: bool
  timestamp_last_run :: real
  watchdog :: Watchdog
  tree_status :: Status
  ego_vehicles :: "nat list"

section \<open>The reporter: \<^verbatim>\<open>_console_message\<close>\<close>

text \<open>
  Values stored on the py_trees blackboard by the criteria: Python numbers and booleans.
  \<^verbatim>\<open>Blackboard.get\<close> returns \<^verbatim>\<open>None\<close> for a name that was never set, so the
  blackboard is a partial map from names to values.
\<close>

datatype pyval = PyInt int | PyFloat real | PyBool bool

type_synonym Blackboard = "string \<rightharpoonup> pyval"

text \<open>The number a Python value stands for in arithmetic (\<^verbatim>\<open>True\<close> is 1).\<close>

fun num :: "pyval \<Rightarrow> real" where
  "num (PyInt i) = real_of_int i"
| "num (PyFloat r) = r"
| "num (PyBool b) = (if b then 1 else 0)"

text \<open>Python truthiness of a value.\<close>

fun truthy :: "pyval \<Rightarrow> bool" where
  "truthy (PyInt i) = (i \<noteq> 0)"
| "truthy (PyFloat r) = (r \<noteq> 0)"
| "truthy (PyBool b) = b"

text \<open>
  \<^verbatim>\<open>float(x)\<close>. A float is itself and a boolean is 0 or 1. An integer is rounded to
  the nearest double, 53 significant bits and ties to the even neighbour; the call
  raises \<^verbatim>\<open>OverflowError\<close> when the rounded value reaches \<open>2 ^ 1024\<close>. \<open>bitlen n\<close> is
  the number of binary digits of \<open>n\<close>.
\<close>

fun bitlen :: "nat \<Rightarrow> nat" where
  "bitlen n = (if n = 0 then 0 else Suc (bitlen (n div 2)))"

declare bitlen.simps [simp del]

definition round_to_double :: "nat \<Rightarrow> nat" where
  "round_to_double n =
     (if bitlen n \<le> 53 then n
      else
        let e = bitlen n - 53;
            q = n div 2 ^ e;
            r = n mod 2 ^ e;
            half = 2 ^ (e - 1)
        in (if r > half \<or> (r = half \<and> odd q) then q + 1 else q) * 2 ^ e)"

definition float_of_int :: "int \<Rightarrow> error + real" where
  "float_of_int i =
     (let v = round_to_double (nat \<bar>i\<bar>)
      in if v \<ge> 2 ^ 1024 then Inl OverflowError
         else Inr (if i < 0 then - real v else real v))"

fun py_float :: "pyval \<Rightarrow> error + real" where
  "py_float (PyInt i) = float_of_int i"
| "py_float (PyFloat r) = Inr r"
| "py_float (PyBool b) = Inr (if b then 1 else 0)"

datatype symbol = tick | cross

text \<open>The nested function \<^verbatim>\<open>get_symbol(value, desired_value, high)\<close>.\<close>

definition get_symbol :: "real \<Rightarrow> real \<Rightarrow> bool \<Rightarrow> symbol" where
  "get_symbol val desired_value high =
     (let multiplier = (if high then 1 else - 1)
      in if multiplier * val \<ge> desired_value then tick else cross)"

text \<open>
  What \<^verbatim>\<open>_console_message\<close> prints, one constructor per \<^verbatim>\<open>print\<close> call:
  \<open>Notice\<close> is the line of a run that was shut down, \<open>Message s\<close> is
  \<^verbatim>\<open>print("\n" + message)\<close> with the verdict \<open>s\<close>, \<open>Prompt\<close> and \<open>ScoreHeader\<close> the two
  fixed lines, and the last five the score lines. The text of a number is not modelled:
  a score line carries its symbol and the value it formats.
\<close>

datatype out =
    Notice
  | Message string
  | Prompt
  | ScoreHeader
  | RouteCompletedLine symbol pyval
  | OutsideRouteLanesLine symbol real
  | CollisionsLine symbol pyval
  | RedLightsLine symbol pyval
  | StopSignsLine symbol pyval

definition msg_deviated :: string where
  "msg_deviated = ''> FAILED: The actor deviated from the route''"

definition msg_not_finished :: string where
  "msg_not_finished = ''> FAILED: The actor didn'' @ [CHR 0x27] @ ''t finish the route''"

definition msg_success :: string where
  "msg_success = ''> SUCCESS: Congratulations, route finished! ''"

definition msg_timed_out :: string where
  "msg_timed_out = ''> FAILED: The actor timed out ''"

text \<open>
  \<^verbatim>\<open>Blackboard.get(name)\<close> of py_trees: the value stored under the name, or
  \<^verbatim>\<open>None\<close>, and the blackboard after the call, which the call does not write.
\<close>

definition blackboard_get :: "Blackboard \<Rightarrow> string \<Rightarrow> pyval option \<times> Blackboard" where
  "blackboard_get blackv name = (blackv name, blackv)"

text \<open>
  \<^verbatim>\<open>_console_message(self)\<close>, statement by statement, on the state it runs in: the
  manager and the blackboard go in, and come back after the call together with the
  printed output and the exception that ended the call, if any. Every
  \<^verbatim>\<open>blackv.get\<close> goes through \<open>blackboard_get\<close> and hands the blackboard on to the next
  statement; \<^verbatim>\<open>route_completed = 100\<close> on line 184 binds the local variable. The
  comparison \<^verbatim>\<open>blackv.get("RouteCompletion") >= 99\<close> on line 183 raises
  \<^verbatim>\<open>TypeError\<close> when the entry is \<^verbatim>\<open>None\<close> (Python 3), and
  \<^verbatim>\<open>float(outside_route_lanes)\<close> on line 187 may raise \<^verbatim>\<open>OverflowError\<close>; nothing
  has been printed at either point. The five entries tested on line 180 are not
  \<^verbatim>\<open>None\<close> past line 181, which is where \<open>the\<close> reads them.
\<close>

definition console_message ::
  "'a ScenarioManager \<Rightarrow> Blackboard \<Rightarrow>
     (out list \<times> error option) \<times> 'a ScenarioManager \<times> Blackboard" where
  "console_message m blackv =
     (if tree_status m = RUNNING then (([Notice], None), m, blackv)
      else
        case blackboard_get blackv ''RouteCompletion'' of (route_completed, blackv) \<Rightarrow>
        case blackboard_get blackv ''Collision'' of (collisions, blackv) \<Rightarrow>
        case blackboard_get blackv ''OutsideRouteLanes'' of (outside_route_lanes, blackv) \<Rightarrow>
        case blackboard_get blackv ''RunningStop'' of (stop_signs, blackv) \<Rightarrow>
        case blackboard_get blackv ''RunningRedLight'' of (red_light, blackv) \<Rightarrow>
        case blackboard_get blackv ''InRoute'' of (in_route, blackv) \<Rightarrow>
        if filter (\<lambda>x. x = None)
             [collisions, outside_route_lanes, stop_signs, red_light, in_route] \<noteq> []
        then (([], None), m, blackv)
        else
          case blackboard_get blackv ''RouteCompletion'' of (compared, blackv) \<Rightarrow>
          (case compared of
             None \<Rightarrow> (([], Some TypeError), m, blackv)
           | Some c \<Rightarrow>
               case (if num c \<ge> 99 then (Some (PyInt 100), blackv)
                     else blackboard_get blackv ''RouteCompletion'')
               of (route_completed, blackv) \<Rightarrow>
               (case py_float (the outside_route_lanes) of
                  Inl e \<Rightarrow> (([], Some e), m, blackv)
                | Inr outside_route_lanes \<Rightarrow>
                    (case route_completed of
                       None \<Rightarrow> (([], Some TypeError), m, blackv)
                     | Some route_completed \<Rightarrow>
                         let route_symbol = get_symbol (num route_completed) 100 True;
                             collision_symbol = get_symbol (num (the collisions)) 0 False;
                             outside_symbol = get_symbol outside_route_lanes 0 False;
                             red_light_symbol = get_symbol (num (the red_light)) 0 False;
                             stop_symbol = get_symbol (num (the stop_signs)) 0 False;
                             message =
                               (if tree_status m = FAILURE then
                                  (if \<not> truthy (the in_route) then Some msg_deviated
                                   else Some msg_not_finished)
                                else if tree_status m = SUCCESS then
                                  (if num route_completed = 100 then Some msg_success
                                   else Some msg_timed_out)
                                else None)
                         in (case message of
                               None \<Rightarrow> (([], None), m, blackv)
                             | Some message \<Rightarrow>
                                 if tree_status m \<noteq> RUNNING then
                                   (([Message message, Prompt, ScoreHeader,
                                      RouteCompletedLine route_symbol route_completed,
                                      OutsideRouteLanesLine outside_symbol outside_route_lanes,
                                      CollisionsLine collision_symbol (the collisions),
                                      RedLightsLine red_light_symbol (the red_light),
                                      StopSignsLine stop_symbol (the stop_signs)], None),
                                    m, blackv)
                                 else (([], None), m, blackv))))))"

section \<open>The orchestrator\<close>

text \<open>
  Calls on the collaborators, in the order they are made. \<open>ApplyControl v c\<close> is
  \<^verbatim>\<open>self.ego_vehicles[0].apply_control(ego_action)\<close> on actor \<open>v\<close> with command \<open>c\<close>,
  \<open>SpectatorSetTransform v\<close> the spectator placed above actor \<open>v\<close>, \<open>WorldTick\<close> is
  \<^verbatim>\<open>CarlaDataProvider.get_world().tick()\<close>.
\<close>

datatype 'c event =
    WatchdogUpdate
  | GameTimeTick Timestamp
  | DataProviderTick
  | AgentCall
  | TreeTickOnce
  | PrintTree
  | SpectatorSetTransform nat
  | ApplyControl nat 'c
  | WorldTick

text \<open>
  What one call of \<^verbatim>\<open>_tick_scenario\<close> receives: its argument, and the answers of the
  collaborators during the call, namely the command returned by \<^verbatim>\<open>self._agent()\<close> and
  the status of the tree once \<^verbatim>\<open>tick_once()\<close> has returned.
\<close>

record 'c tick_input =
  timestamp :: Timestamp
  ego_action :: 'c
  status_after_tick :: Status

text \<open>\<^verbatim>\<open>_signal_handler\<close>: the state after the handler and the exception it raises.\<close>

definition get_running_status :: "'a ScenarioManager \<Rightarrow> bool" where
  "get_running_status m = get_status (watchdog m)"

definition signal_handler :: "'a ScenarioManager \<Rightarrow> 'a ScenarioManager \<times> error option" where
  "signal_handler m =
     (let m = m\<lparr>running := False\<rparr>
      in if \<not> get_running_status m
         then (m, Some (RuntimeError ''Timeout occured during scenario execution''))
         else (m, None))"

text \<open>
  Lines 224 to 254 of \<^verbatim>\<open>_tick_scenario\<close>, the block run for a newer timestamp. The
  result is the state, the calls made and the exception that ended the block, if any:
  \<^verbatim>\<open>self.ego_vehicles[0]\<close> raises \<^verbatim>\<open>IndexError\<close> on an empty list.
\<close>

definition tick_cycle ::
  "'a ScenarioManager \<Rightarrow> 'c tick_input \<Rightarrow> 'a ScenarioManager \<times> 'c event list \<times> error option" where
  "tick_cycle m inp =
     (let m = m\<lparr>timestamp_last_run := elapsed_seconds (timestamp inp)\<rparr>;
          evs = [WatchdogUpdate, GameTimeTick (timestamp inp), DataProviderTick];
          evs = evs @ (if agent m \<noteq> None then [AgentCall] else []);
          evs = evs @ [TreeTickOnce];
          m = m\<lparr>tree_status := status_after_tick inp\<rparr>;
          evs = evs @ (if debug_mode m > 1 then [PrintTree] else []);
          m = (if tree_status m \<noteq> RUNNING then m\<lparr>running := False\<rparr> else m)
      in if challenge_mode m \<and> ego_vehicles m = [] then (m, evs, Some IndexError)
         else
           let evs = evs @ (if challenge_mode m
                            then [SpectatorSetTransform (hd (ego_vehicles m))] else [])
           in if agent m \<noteq> None \<and> ego_vehicles m = [] then (m, evs, Some IndexError)
              else (m, evs @ (if agent m \<noteq> None
                              then [ApplyControl (hd (ego_vehicles m)) (ego_action inp)]
                              else []), None))"

text \<open>Lines 256 and 257: the request to advance the external clock.\<close>

definition tick_world :: "'a ScenarioManager \<Rightarrow> 'c event list" where
  "tick_world m =
     (if agent m \<noteq> None \<and> running m \<and> get_status (watchdog m) then [WorldTick] else [])"

text \<open>\<^verbatim>\<open>_tick_scenario(self, timestamp)\<close>. An exception in the block skips line 256.\<close>

definition tick_scenario ::
  "'a ScenarioManager \<Rightarrow> 'c tick_input \<Rightarrow> 'a ScenarioManager \<times> 'c event list \<times> error option" where
  "tick_scenario m inp =
     (if timestamp_last_run m < elapsed_seconds (timestamp inp) then
        (case tick_cycle m inp of
           (m', evs, Some e) \<Rightarrow> (m', evs, Some e)
         | (m', evs, None) \<Rightarrow> (m', evs @ tick_world m', None))
      else (m, tick_world m, None))"

text \<open>
  A sequence of calls of \<^verbatim>\<open>_tick_scenario\<close>. The watchdog's timer thread may write
  the liveness flag at any moment: the first component of an entry is the flag as line
  256 of that call reads it, the only place where the call reads it. The sequence ends
  at the first exception.
\<close>

fun tick_all ::
  "'a ScenarioManager \<Rightarrow> (bool \<times> 'c tick_input) list \<Rightarrow>
     'a ScenarioManager \<times> 'c event list \<times> error option" where
  "tick_all m [] = (m, [], None)"
| "tick_all m ((wd, inp) # rest) =
     (case tick_scenario (m\<lparr>watchdog := \<lparr>alive = wd\<rparr>\<rparr>) inp of
        (m', evs, Some e) \<Rightarrow> (m', evs, Some e)
      | (m', evs, None) \<Rightarrow>
          (case tick_all m' rest of (m'', evs', err) \<Rightarrow> (m'', evs @ evs', err)))"


section \<open>Vocabulary of the specification\<close>

text \<open>
  The six names \<^verbatim>\<open>_console_message\<close> looks up on the blackboard, and the five of them
  that the test on line 180 covers.
\<close>

definition metric_names :: "string list" where
  "metric_names = [''RouteCompletion'', ''Collision'', ''OutsideRouteLanes'',
                   ''RunningStop'', ''RunningRedLight'', ''InRoute'']"

definition five_present :: "Blackboard \<Rightarrow> bool" where
  "five_present blackv =
     (blackv ''Collision'' \<noteq> None \<and> blackv ''OutsideRouteLanes'' \<noteq> None \<and>
      blackv ''RunningStop'' \<noteq> None \<and> blackv ''RunningRedLight'' \<noteq> None \<and>
      blackv ''InRoute'' \<noteq> None)"

text \<open>The value printed for the route completion (lines 183 to 186).\<close>

definition clamped :: "pyval \<Rightarrow> pyval" where
  "clamped rc = (if num rc \<ge> 99 then PyInt 100 else rc)"

text \<open>
  The specification's rule for the reporter, in its own words: completion is clamped to
  100 once it reaches 99, and the verdict has four cases.
\<close>

definition clamp_spec :: "real \<Rightarrow> real" where
  "clamp_spec c = (if c \<ge> 99 then 100 else c)"

definition verdict_spec :: "Status \<Rightarrow> bool \<Rightarrow> real \<Rightarrow> string option" where
  "verdict_spec st in_route completion =
     (if st = FAILURE \<and> \<not> in_route then Some msg_deviated
      else if st = FAILURE \<and> in_route then Some msg_not_finished
      else if st = SUCCESS \<and> completion = 100 then Some msg_success
      else if st = SUCCESS \<and> completion < 100 then Some msg_timed_out
      else None)"

text \<open>States and blackboards used to run the definitions on concrete inputs.\<close>

abbreviation manager0 :: "unit ScenarioManager" where
  "manager0 \<equiv> \<lparr>debug_mode = 0, challenge_mode = False, agent = Some (), running = True,
     timestamp_last_run = 0, watchdog = \<lparr>alive = True\<rparr>, tree_status = RUNNING,
     ego_vehicles = [7]\<rparr>"

abbreviation blackboard97 :: Blackboard where
  "blackboard97 \<equiv> [''RouteCompletion'' \<mapsto> PyFloat 97, ''Collision'' \<mapsto> PyInt 0,
     ''OutsideRouteLanes'' \<mapsto> PyFloat 0, ''RunningStop'' \<mapsto> PyInt 0,
     ''RunningRedLight'' \<mapsto> PyInt 0, ''InRoute'' \<mapsto> PyBool True]"

abbreviation blackboard_near :: Blackboard where
  "blackboard_near \<equiv> [''RouteCompletion'' \<mapsto> PyFloat (199 / 2), ''Collision'' \<mapsto> PyInt 0,
     ''OutsideRouteLanes'' \<mapsto> PyInt (2 ^ 53 + 3), ''RunningStop'' \<mapsto> PyInt 0,
     ''RunningRedLight'' \<mapsto> PyInt 1, ''InRoute'' \<mapsto> PyBool True]"

abbreviation blackboard_off :: Blackboard where
  "blackboard_off \<equiv> [''RouteCompletion'' \<mapsto> PyInt 40, ''Collision'' \<mapsto> PyInt 2,
     ''OutsideRouteLanes'' \<mapsto> PyFloat (5 / 2), ''RunningStop'' \<mapsto> PyInt 0,
     ''RunningRedLight'' \<mapsto> PyInt 0, ''InRoute'' \<mapsto> PyBool False]"

text \<open>
  The calls that are steps of a cycle: the watchdog refresh, the clock and data updates,
  the agent call, the tree tick and the command application. The tree print, the
  spectator update and the world tick are not.
\<close>

fun is_step :: "'c event \<Rightarrow> bool" where
  "is_step PrintTree = False"
| "is_step (SpectatorSetTransform v) = False"
| "is_step WorldTick = False"
| "is_step _ = True"

text \<open>
  The order of the steps of one cycle as the specification gives it: watchdog, clock and
  cached state, the agent if one is attached, one tree tick, then the command.
\<close>

definition steps_spec :: "'a ScenarioManager \<Rightarrow> 'c tick_input \<Rightarrow> 'c event list" where
  "steps_spec m inp =
     [WatchdogUpdate, GameTimeTick (timestamp inp), DataProviderTick]
     @ (if agent m \<noteq> None then [AgentCall] else [])
     @ [TreeTickOnce]
     @ (if agent m \<noteq> None then [ApplyControl (hd (ego_vehicles m)) (ego_action inp)] else [])"

text \<open>The elapsed seconds of the cycles in a trace, read off the clock updates.\<close>

fun cycle_stamps :: "'c event list \<Rightarrow> real list" where
  "cycle_stamps [] = []"
| "cycle_stamps (GameTimeTick ts # es) = elapsed_seconds ts # cycle_stamps es"
| "cycle_stamps (e # es) = cycle_stamps es"

text \<open>
  The strictly new timestamps of a sequence: those greater than the last one taken,
  starting from \<open>l\<close>.
\<close>

fun new_timestamps :: "real \<Rightarrow> real list \<Rightarrow> real list" where
  "new_timestamps l [] = []"
| "new_timestamps l (t # ts) =
     (if l < t then t # new_timestamps t ts else new_timestamps l ts)"

text \<open>The test on line 223.\<close>

definition newer :: "'a ScenarioManager \<Rightarrow> 'c tick_input \<Rightarrow> bool" where
  "newer m inp = (timestamp_last_run m < elapsed_seconds (timestamp inp))"

text \<open>
  The state, and the calls, of a cycle written out: \<open>cycle_pre\<close> up to the tree tick and
  its print, \<open>cycle_post\<close> after the running flag is set. \<open>no_actor\<close> is the case in
  which \<^verbatim>\<open>self.ego_vehicles[0]\<close> is evaluated on an empty list.
\<close>

definition cycle_state :: "'a ScenarioManager \<Rightarrow> 'c tick_input \<Rightarrow> 'a ScenarioManager" where
  "cycle_state m inp =
     m\<lparr>timestamp_last_run := elapsed_seconds (timestamp inp),
       tree_status := status_after_tick inp,
       running := running m \<and> status_after_tick inp = RUNNING\<rparr>"

definition cycle_pre :: "'a ScenarioManager \<Rightarrow> 'c tick_input \<Rightarrow> 'c event list" where
  "cycle_pre m inp =
     [WatchdogUpdate, GameTimeTick (timestamp inp), DataProviderTick]
     @ (if agent m \<noteq> None then [AgentCall] else [])
     @ [TreeTickOnce]
     @ (if debug_mode m > 1 then [PrintTree] else [])"

definition cycle_post :: "'a ScenarioManager \<Rightarrow> 'c tick_input \<Rightarrow> 'c event list" where
  "cycle_post m inp =
     (if challenge_mode m then [SpectatorSetTransform (hd (ego_vehicles m))] else [])
     @ (if agent m \<noteq> None then [ApplyControl (hd (ego_vehicles m)) (ego_action inp)] else [])"

definition no_actor :: "'a ScenarioManager \<Rightarrow> bool" where
  "no_actor m = ((challenge_mode m \<or> agent m \<noteq> None) \<and> ego_vehicles m = [])"

text \<open>Inputs of \<^verbatim>\<open>_tick_scenario\<close> used to run the definitions.\<close>

abbreviation input1 :: "unit tick_input" where
  "input1 \<equiv> \<lparr>timestamp = \<lparr>frame = 1, elapsed_seconds = 1\<rparr>, ego_action = (),
     status_after_tick = RUNNING\<rparr>"

abbreviation input2 :: "unit tick_input" where
  "input2 \<equiv> \<lparr>timestamp = \<lparr>frame = 2, elapsed_seconds = 2\<rparr>, ego_action = (),
     status_after_tick = SUCCESS\<rparr>"

section \<open>Properties of the reporter\<close>

lemma console_message_state:
  "snd (console_message m blackv) = (m, blackv)"
  unfolding console_message_def blackboard_get_def
  by (simp add: Let_def split: option.split sum.split)

lemma console_message_running_eq:
  "tree_status m = RUNNING \<Longrightarrow> console_message m blackv = (([Notice], None), m, blackv)"
  by (simp add: console_message_def)

lemma filter_none_iff:
  "filter (\<lambda>x. x = None)
          [blackv ''Collision'', blackv ''OutsideRouteLanes'', blackv ''RunningStop'',
           blackv ''RunningRedLight'', blackv ''InRoute''] = [] \<longleftrightarrow> five_present blackv"
  unfolding five_present_def filter_empty_conv by auto

lemma console_message_five_missing:
  assumes "tree_status m \<noteq> RUNNING" "\<not> five_present blackv"
  shows "console_message m blackv = (([], None), m, blackv)"
  using assms(1) assms(2)[folded filter_none_iff]
  unfolding console_message_def blackboard_get_def
  by (simp only: if_False if_True simp_thms prod.case)

lemma console_message_route_missing:
  assumes "tree_status m \<noteq> RUNNING" "five_present blackv" "blackv ''RouteCompletion'' = None"
  shows "console_message m blackv = (([], Some TypeError), m, blackv)"
  using assms(1,3) assms(2)[folded filter_none_iff]
  unfolding console_message_def blackboard_get_def
  by (simp only: if_False if_True option.case simp_thms prod.case)

lemma console_message_overflow:
  assumes "tree_status m \<noteq> RUNNING" "blackv ''RouteCompletion'' = Some rc"
    "blackv ''Collision'' = Some c" "blackv ''OutsideRouteLanes'' = Some ol"
    "blackv ''RunningStop'' = Some ss" "blackv ''RunningRedLight'' = Some rl"
    "blackv ''InRoute'' = Some ir" "py_float ol = Inl e"
  shows "console_message m blackv = (([], Some e), m, blackv)"
  using assms(1)
  by (simp only: console_message_def blackboard_get_def assms(2-8) if_False if_True
        option.case sum.case simp_thms list.simps filter.simps option.sel option.simps
        prod.case split: if_split)

lemma console_message_present:
  assumes "tree_status m \<noteq> RUNNING" "blackv ''RouteCompletion'' = Some rc"
    "blackv ''Collision'' = Some c" "blackv ''OutsideRouteLanes'' = Some ol"
    "blackv ''RunningStop'' = Some ss" "blackv ''RunningRedLight'' = Some rl"
    "blackv ''InRoute'' = Some ir" "py_float ol = Inr f"
  shows "console_message m blackv =
     (case (if tree_status m = FAILURE then
              (if \<not> truthy ir then Some msg_deviated else Some msg_not_finished)
            else if tree_status m = SUCCESS then
              (if num (clamped rc) = 100 then Some msg_success else Some msg_timed_out)
            else None) of
        None \<Rightarrow> (([], None), m, blackv)
      | Some message \<Rightarrow>
         (([Message message, Prompt, ScoreHeader,
           RouteCompletedLine (get_symbol (num (clamped rc)) 100 True) (clamped rc),
           OutsideRouteLanesLine (get_symbol f 0 False) f,
           CollisionsLine (get_symbol (num c) 0 False) c,
           RedLightsLine (get_symbol (num rl) 0 False) rl,
           StopSignsLine (get_symbol (num ss) 0 False) ss], None), m, blackv))"
proof (cases "num rc \<ge> 99")
  case True
  then have cl: "clamped rc = PyInt 100" by (simp add: clamped_def)
  show ?thesis
    using assms(1) True
    by (simp only: console_message_def blackboard_get_def assms(2-8) Let_def cl if_False
        if_True option.case sum.case simp_thms list.simps filter.simps option.sel
        option.simps prod.case)
next
  case False
  then have cl: "clamped rc = rc" by (simp add: clamped_def)
  show ?thesis
    using assms(1) False
    by (simp only: console_message_def blackboard_get_def assms(2-8) Let_def cl if_False
        if_True option.case sum.case simp_thms list.simps filter.simps option.sel
        option.simps prod.case)
qed

lemma num_clamped: "num (clamped rc) = clamp_spec (num rc)"
  by (simp add: clamped_def clamp_spec_def)

lemma verdict_code_eq_spec:
  "(if st = FAILURE then
      (if \<not> truthy ir then Some msg_deviated else Some msg_not_finished)
    else if st = SUCCESS then
      (if num (clamped rc) = 100 then Some msg_success else Some msg_timed_out)
    else None) = verdict_spec st (truthy ir) (clamp_spec (num rc))"
  by (simp add: verdict_spec_def num_clamped) (simp add: clamp_spec_def)

lemma blackboard97_lookup:
  "blackboard97 ''RouteCompletion'' = Some (PyFloat 97)"
  "blackboard97 ''Collision'' = Some (PyInt 0)"
  "blackboard97 ''OutsideRouteLanes'' = Some (PyFloat 0)"
  "blackboard97 ''RunningStop'' = Some (PyInt 0)"
  "blackboard97 ''RunningRedLight'' = Some (PyInt 0)"
  "blackboard97 ''InRoute'' = Some (PyBool True)"
  by simp_all

lemma blackboard_near_lookup:
  "blackboard_near ''RouteCompletion'' = Some (PyFloat (199 / 2))"
  "blackboard_near ''Collision'' = Some (PyInt 0)"
  "blackboard_near ''OutsideRouteLanes'' = Some (PyInt (2 ^ 53 + 3))"
  "blackboard_near ''RunningStop'' = Some (PyInt 0)"
  "blackboard_near ''RunningRedLight'' = Some (PyInt 1)"
  "blackboard_near ''InRoute'' = Some (PyBool True)"
  by simp_all

lemma blackboard_off_lookup:
  "blackboard_off ''RouteCompletion'' = Some (PyInt 40)"
  "blackboard_off ''Collision'' = Some (PyInt 2)"
  "blackboard_off ''OutsideRouteLanes'' = Some (PyFloat (5 / 2))"
  "blackboard_off ''RunningStop'' = Some (PyInt 0)"
  "blackboard_off ''RunningRedLight'' = Some (PyInt 0)"
  "blackboard_off ''InRoute'' = Some (PyBool False)"
  by simp_all

lemma py_float_examples:
  "py_float (PyFloat 0) = Inr 0"
  "py_float (PyFloat (5 / 2)) = Inr (5 / 2)"
  "py_float (PyInt (2 ^ 53 + 3)) = Inr (2 ^ 53 + 4)"
  by (simp_all add: float_of_int_def round_to_double_def bitlen.simps Let_def)

lemma bitlen_double: "0 < n \<Longrightarrow> bitlen (2 * n) = Suc (bitlen n)"
  by (subst bitlen.simps) simp

lemma bitlen_power: "bitlen (2 ^ k) = Suc k"
proof (induction k)
  case 0
  show ?case by (simp add: bitlen.simps)
next
  case (Suc k)
  then show ?case by (simp add: bitlen_double)
qed

lemma py_float_overflow: "py_float (PyInt (2 ^ 1024)) = Inl OverflowError"
proof -
  have n: "nat \<bar>2 ^ 1024 :: int\<bar> = 2 ^ 1024" by (simp add: nat_power_eq)
  have b: "bitlen (2 ^ 1024) = 1025" using bitlen_power[of 1024] by simp
  have "round_to_double (2 ^ 1024) = 2 ^ 1024"
    unfolding round_to_double_def b Let_def by simp
  then show ?thesis
    by (simp add: float_of_int_def n)
qed

lemma missing_cases:
  assumes "k \<in> set metric_names" "blackv k = None"
  shows "\<not> five_present blackv \<or> blackv ''RouteCompletion'' = None"
  using assms by (auto simp: metric_names_def five_present_def)

text \<open>
  What the reporter does when one of the six metrics is absent: with a status other
  than RUNNING it prints nothing; it returns when one of the five metrics of line 180 is
  absent, and ends with \<^verbatim>\<open>TypeError\<close> when they are present and the route
  completion is not.
\<close>

lemma console_message_missing_metric:
  assumes "k \<in> set metric_names" and "blackv k = None"
  shows "fst (console_message m blackv) =
           (if tree_status m = RUNNING then ([Notice], None)
            else if five_present blackv then ([], Some TypeError) else ([], None))"
proof (cases "tree_status m = RUNNING")
  case True
  then show ?thesis by (simp add: console_message_running_eq)
next
  case False
  show ?thesis
  proof (cases "five_present blackv")
    case True
    with missing_cases[of k blackv] assms have "blackv ''RouteCompletion'' = None" by simp
    with False True show ?thesis
      by (simp add: console_message_route_missing)
  next
    case nf: False
    with False show ?thesis
      by (simp add: console_message_five_missing)
  qed
qed

lemma console_message_near:
  "console_message (manager0\<lparr>tree_status := SUCCESS\<rparr>) blackboard_near =
     (([Message msg_success, Prompt, ScoreHeader,
        RouteCompletedLine tick (PyInt 100), OutsideRouteLanesLine cross (2 ^ 53 + 4),
        CollisionsLine tick (PyInt 0), RedLightsLine cross (PyInt 1),
        StopSignsLine tick (PyInt 0)], None),
      manager0\<lparr>tree_status := SUCCESS\<rparr>, blackboard_near)"
proof -
  have nr: "tree_status (manager0\<lparr>tree_status := SUCCESS\<rparr>) \<noteq> RUNNING" by simp
  show ?thesis
    unfolding console_message_present
                [where blackv = blackboard_near and m = "manager0\<lparr>tree_status := SUCCESS\<rparr>",
                 OF nr blackboard_near_lookup py_float_examples(3)]
    by (simp add: clamped_def get_symbol_def)
qed

text \<open>
  The error path of line 187 on a concrete blackboard: an outside-lanes entry of
  \<open>2 ^ 1024\<close> ends the call with \<^verbatim>\<open>OverflowError\<close> and nothing printed.
\<close>

lemma console_message_overflow_example:
  "fst (console_message (manager0\<lparr>tree_status := SUCCESS\<rparr>)
          (blackboard97(''OutsideRouteLanes'' \<mapsto> PyInt (2 ^ 1024)))) =
     ([], Some OverflowError)"
proof -
  have nr: "tree_status (manager0\<lparr>tree_status := SUCCESS\<rparr>) \<noteq> RUNNING" by simp
  have l: "(blackboard97(''OutsideRouteLanes'' \<mapsto> PyInt (2 ^ 1024))) ''RouteCompletion''
             = Some (PyFloat 97)"
    "(blackboard97(''OutsideRouteLanes'' \<mapsto> PyInt (2 ^ 1024))) ''Collision''
             = Some (PyInt 0)"
    "(blackboard97(''OutsideRouteLanes'' \<mapsto> PyInt (2 ^ 1024))) ''OutsideRouteLanes''
             = Some (PyInt (2 ^ 1024))"
    "(blackboard97(''OutsideRouteLanes'' \<mapsto> PyInt (2 ^ 1024))) ''RunningStop''
             = Some (PyInt 0)"
    "(blackboard97(''OutsideRouteLanes'' \<mapsto> PyInt (2 ^ 1024))) ''RunningRedLight''
             = Some (PyInt 0)"
    "(blackboard97(''OutsideRouteLanes'' \<mapsto> PyInt (2 ^ 1024))) ''InRoute''
             = Some (PyBool True)"
    by (simp_all del: power_numeral)
  show ?thesis
    unfolding console_message_overflow
                [where blackv = "blackboard97(''OutsideRouteLanes'' \<mapsto> PyInt (2 ^ 1024))"
                   and m = "manager0\<lparr>tree_status := SUCCESS\<rparr>",
                 OF nr l py_float_overflow]
    by simp
qed

text \<open>
  C3. The claim asks that the reporter prints nothing and reports the score as
  unavailable when a metric is absent, the route completion included. The code does so
  for an absent collision count: the test of line 180 returns. The route completion is
  read on line 172 and left out of that test: with it absent and the five others
  present, the call ends with the \<^verbatim>\<open>TypeError\<close> of line 183 instead of returning.
\<close>

theorem console_message_route_completion_absent:
  "fst (console_message (manager0\<lparr>tree_status := SUCCESS\<rparr>)
          (blackboard97(''RouteCompletion'' := None))) = ([], Some TypeError)
   \<and> fst (console_message (manager0\<lparr>tree_status := SUCCESS\<rparr>)
          (blackboard97(''Collision'' := None))) = ([], None)"
proof -
  have nr: "tree_status (manager0\<lparr>tree_status := SUCCESS\<rparr>) \<noteq> RUNNING" by simp
  have a: "five_present (blackboard97(''RouteCompletion'' := None))"
    by (simp add: five_present_def)
  have b: "(blackboard97(''RouteCompletion'' := None)) ''RouteCompletion'' = None" by simp
  have c: "\<not> five_present (blackboard97(''Collision'' := None))"
    by (simp add: five_present_def)
  show ?thesis
    unfolding console_message_route_missing[OF nr a b] console_message_five_missing[OF nr c]
    by simp
qed

text \<open>
  C4. With the six metrics present, an outside-lanes value that \<^verbatim>\<open>float\<close> accepts and
  a final status of SUCCESS or FAILURE, the reporter prints the route completion clamped
  to 100 from 99 on, and the verdict of the specification's four cases: FAILURE off the
  route is "deviated from the route", FAILURE on the route is "didn't finish the route",
  SUCCESS with a clamped completion of 100 is the success message, SUCCESS with less is
  "timed out".
\<close>

theorem console_message_verdict:
  assumes "blackv ''RouteCompletion'' = Some rc" and "blackv ''Collision'' = Some c"
    and "blackv ''OutsideRouteLanes'' = Some ol" and "blackv ''RunningStop'' = Some ss"
    and "blackv ''RunningRedLight'' = Some rl" and "blackv ''InRoute'' = Some ir"
    and "py_float ol = Inr f"
    and "tree_status m = SUCCESS \<or> tree_status m = FAILURE"
  shows "\<exists>message.
           verdict_spec (tree_status m) (truthy ir) (clamp_spec (num rc)) = Some message
         \<and> num (clamped rc) = clamp_spec (num rc)
         \<and> fst (console_message m blackv) =
             ([Message message, Prompt, ScoreHeader,
               RouteCompletedLine (get_symbol (clamp_spec (num rc)) 100 True) (clamped rc),
               OutsideRouteLanesLine (get_symbol f 0 False) f,
               CollisionsLine (get_symbol (num c) 0 False) c,
               RedLightsLine (get_symbol (num rl) 0 False) rl,
               StopSignsLine (get_symbol (num ss) 0 False) ss], None)"
proof -
  let ?st = "tree_status m"
  have nr: "?st \<noteq> RUNNING" using assms(8) by auto
  have le: "clamp_spec (num rc) = 100 \<or> clamp_spec (num rc) < 100"
    by (simp add: clamp_spec_def)
  have "\<exists>message. verdict_spec ?st (truthy ir) (clamp_spec (num rc)) = Some message"
    using assms(8) le by (auto simp: verdict_spec_def)
  then obtain message where
    v: "verdict_spec ?st (truthy ir) (clamp_spec (num rc)) = Some message"
    by blast
  have "console_message m blackv =
     (([Message message, Prompt, ScoreHeader,
       RouteCompletedLine (get_symbol (num (clamped rc)) 100 True) (clamped rc),
       OutsideRouteLanesLine (get_symbol f 0 False) f,
       CollisionsLine (get_symbol (num c) 0 False) c,
       RedLightsLine (get_symbol (num rl) 0 False) rl,
       StopSignsLine (get_symbol (num ss) 0 False) ss], None), m, blackv)"
    unfolding console_message_present[OF nr assms(1-7)] verdict_code_eq_spec v
    by simp
  then show ?thesis
    using v by (simp add: num_clamped)
qed

theorem console_message_verdict_witness:
  "fst (console_message (manager0\<lparr>tree_status := SUCCESS\<rparr>) blackboard97) =
     ([Message msg_timed_out, Prompt, ScoreHeader,
       RouteCompletedLine cross (PyFloat 97), OutsideRouteLanesLine tick 0,
       CollisionsLine tick (PyInt 0), RedLightsLine tick (PyInt 0),
       StopSignsLine tick (PyInt 0)], None)
   \<and> fst (console_message (manager0\<lparr>tree_status := SUCCESS\<rparr>) blackboard_near) =
     ([Message msg_success, Prompt, ScoreHeader,
       RouteCompletedLine tick (PyInt 100), OutsideRouteLanesLine cross (2 ^ 53 + 4),
       CollisionsLine tick (PyInt 0), RedLightsLine cross (PyInt 1),
       StopSignsLine tick (PyInt 0)], None)
   \<and> fst (console_message (manager0\<lparr>tree_status := FAILURE\<rparr>) blackboard_off) =
     ([Message msg_deviated, Prompt, ScoreHeader,
       RouteCompletedLine cross (PyInt 40), OutsideRouteLanesLine cross (5 / 2),
       CollisionsLine cross (PyInt 2), RedLightsLine tick (PyInt 0),
       StopSignsLine tick (PyInt 0)], None)
   \<and> fst (console_message (manager0\<lparr>tree_status := FAILURE\<rparr>) blackboard97) =
     ([Message msg_not_finished, Prompt, ScoreHeader,
       RouteCompletedLine cross (PyFloat 97), OutsideRouteLanesLine tick 0,
       CollisionsLine tick (PyInt 0), RedLightsLine tick (PyInt 0),
       StopSignsLine tick (PyInt 0)], None)"
proof -
  have s: "tree_status (manager0\<lparr>tree_status := SUCCESS\<rparr>) = SUCCESS
           \<or> tree_status (manager0\<lparr>tree_status := SUCCESS\<rparr>) = FAILURE" by simp
  have f: "tree_status (manager0\<lparr>tree_status := FAILURE\<rparr>) = SUCCESS
           \<or> tree_status (manager0\<lparr>tree_status := FAILURE\<rparr>) = FAILURE" by simp
  have a: "fst (console_message (manager0\<lparr>tree_status := SUCCESS\<rparr>) blackboard97) =
     ([Message msg_timed_out, Prompt, ScoreHeader,
       RouteCompletedLine cross (PyFloat 97), OutsideRouteLanesLine tick 0,
       CollisionsLine tick (PyInt 0), RedLightsLine tick (PyInt 0),
       StopSignsLine tick (PyInt 0)], None)"
    using console_message_verdict
            [where blackv = blackboard97 and m = "manager0\<lparr>tree_status := SUCCESS\<rparr>",
             OF blackboard97_lookup py_float_examples(1) s]
    by (simp add: verdict_spec_def clamp_spec_def clamped_def get_symbol_def)
  have b: "fst (console_message (manager0\<lparr>tree_status := SUCCESS\<rparr>) blackboard_near) =
     ([Message msg_success, Prompt, ScoreHeader,
       RouteCompletedLine tick (PyInt 100), OutsideRouteLanesLine cross (2 ^ 53 + 4),
       CollisionsLine tick (PyInt 0), RedLightsLine cross (PyInt 1),
       StopSignsLine tick (PyInt 0)], None)"
    using console_message_verdict
            [where blackv = blackboard_near and m = "manager0\<lparr>tree_status := SUCCESS\<rparr>",
             OF blackboard_near_lookup py_float_examples(3) s]
    by (simp add: verdict_spec_def clamp_spec_def clamped_def get_symbol_def)
  have c: "fst (console_message (manager0\<lparr>tree_status := FAILURE\<rparr>) blackboard_off) =
     ([Message msg_deviated, Prompt, ScoreHeader,
       RouteCompletedLine cross (PyInt 40), OutsideRouteLanesLine cross (5 / 2),
       CollisionsLine cross (PyInt 2), RedLightsLine tick (PyInt 0),
       StopSignsLine tick (PyInt 0)], None)"
    using console_message_verdict
            [where blackv = blackboard_off and m = "manager0\<lparr>tree_status := FAILURE\<rparr>",
             OF blackboard_off_lookup py_float_examples(2) f]
    by (simp add: verdict_spec_def clamp_spec_def clamped_def get_symbol_def)
  have d: "fst (console_message (manager0\<lparr>tree_status := FAILURE\<rparr>) blackboard97) =
     ([Message msg_not_finished, Prompt, ScoreHeader,
       RouteCompletedLine cross (PyFloat 97), OutsideRouteLanesLine tick 0,
       CollisionsLine tick (PyInt 0), RedLightsLine tick (PyInt 0),
       StopSignsLine tick (PyInt 0)], None)"
    using console_message_verdict
            [where blackv = blackboard97 and m = "manager0\<lparr>tree_status := FAILURE\<rparr>",
             OF blackboard97_lookup py_float_examples(1) f]
    by (simp add: verdict_spec_def clamp_spec_def clamped_def get_symbol_def)
  from a b c d show ?thesis by (intro conjI)
qed



text \<open>
  C9. A call of the reporter leaves the manager (with the tree status) and the
  blackboard as they were: every statement of the body hands the blackboard on as it
  received it, the clamp of line 184 included, which binds a local variable. A second
  call on the state the first one left prints the same output.
\<close>

theorem console_message_idempotent:
  assumes "console_message m blackv = (r, m', blackv')"
  shows "m' = m \<and> blackv' = blackv \<and> console_message m' blackv' = (r, m', blackv')"
proof -
  have "snd (console_message m blackv) = (m, blackv)" by (rule console_message_state)
  with assms have "m' = m" "blackv' = blackv" by simp_all
  with assms show ?thesis by simp
qed

theorem console_message_idempotent_witness:
  "console_message (manager0\<lparr>tree_status := SUCCESS\<rparr>) blackboard_near =
     (([Message msg_success, Prompt, ScoreHeader,
        RouteCompletedLine tick (PyInt 100), OutsideRouteLanesLine cross (2 ^ 53 + 4),
        CollisionsLine tick (PyInt 0), RedLightsLine cross (PyInt 1),
        StopSignsLine tick (PyInt 0)], None),
      manager0\<lparr>tree_status := SUCCESS\<rparr>, blackboard_near)
   \<and> blackboard_near ''RouteCompletion'' = Some (PyFloat (199 / 2))
   \<and> console_message (manager0\<lparr>tree_status := SUCCESS\<rparr>) blackboard_near =
     console_message
       (fst (snd (console_message (manager0\<lparr>tree_status := SUCCESS\<rparr>) blackboard_near)))
       (snd (snd (console_message (manager0\<lparr>tree_status := SUCCESS\<rparr>) blackboard_near)))"
proof -
  let ?m = "manager0\<lparr>tree_status := SUCCESS\<rparr>"
  let ?r = "([Message msg_success, Prompt, ScoreHeader,
              RouteCompletedLine tick (PyInt 100), OutsideRouteLanesLine cross (2 ^ 53 + 4),
              CollisionsLine tick (PyInt 0), RedLightsLine cross (PyInt 1),
              StopSignsLine tick (PyInt 0)], None :: error option)"
  note e = console_message_near
  have i: "?m = ?m \<and> blackboard_near = blackboard_near
         \<and> console_message ?m blackboard_near = (?r, ?m, blackboard_near)"
    by (rule console_message_idempotent [OF e])
  have again: "console_message ?m blackboard_near = (?r, ?m, blackboard_near)"
    using i by (elim conjE)
  have l: "blackboard_near ''RouteCompletion'' = Some (PyFloat (199 / 2))"
    by (rule blackboard_near_lookup(1))
  have "console_message ?m blackboard_near =
     console_message (fst (snd (console_message ?m blackboard_near)))
       (snd (snd (console_message ?m blackboard_near)))"
    by (simp only: again fst_conv snd_conv)
  with again l show ?thesis by (intro conjI)
qed

section \<open>Properties of the orchestrator\<close>

lemma tick_cycle_result:
  "tick_cycle m inp =
     (if no_actor m then (cycle_state m inp, cycle_pre m inp, Some IndexError)
      else (cycle_state m inp, cycle_pre m inp @ cycle_post m inp, None))"
  by (simp add: tick_cycle_def Let_def no_actor_def cycle_state_def cycle_pre_def cycle_post_def)

lemma tick_scenario_result:
  "tick_scenario m inp =
     (if \<not> newer m inp then (m, tick_world m, None)
      else if no_actor m then (cycle_state m inp, cycle_pre m inp, Some IndexError)
      else (cycle_state m inp,
            cycle_pre m inp @ cycle_post m inp @ tick_world (cycle_state m inp), None))"
  by (simp add: tick_scenario_def tick_cycle_result newer_def)

lemma cycle_stamps_append: "cycle_stamps (xs @ ys) = cycle_stamps xs @ cycle_stamps ys"
  by (induction xs rule: cycle_stamps.induct) simp_all

lemma cycle_stamps_parts:
  "cycle_stamps (cycle_pre m inp) = [elapsed_seconds (timestamp inp)]"
  "cycle_stamps (cycle_post m inp) = []"
  "cycle_stamps (tick_world m :: 'c event list) = []"
  by (simp_all add: cycle_pre_def cycle_post_def tick_world_def)

lemma filter_step_parts:
  "filter is_step (cycle_pre m inp) =
     [WatchdogUpdate, GameTimeTick (timestamp inp), DataProviderTick]
     @ (if agent m \<noteq> None then [AgentCall] else []) @ [TreeTickOnce]"
  "filter is_step (cycle_post m inp) =
     (if agent m \<noteq> None then [ApplyControl (hd (ego_vehicles m)) (ego_action inp)] else [])"
  "filter is_step (tick_world m :: 'c event list) = []"
  by (simp_all add: cycle_pre_def cycle_post_def tick_world_def)

lemma world_tick_parts:
  "count_list (cycle_pre m inp) WorldTick = 0"
  "count_list (cycle_post m inp) WorldTick = 0"
  "count_list (tick_world m :: 'c event list) WorldTick =
     (if agent m \<noteq> None \<and> running m \<and> get_status (watchdog m) then 1 else 0)"
  by (simp_all add: cycle_pre_def cycle_post_def tick_world_def)

lemma tree_tick_parts:
  "count_list (cycle_pre m inp) TreeTickOnce = 1"
  "count_list (cycle_post m inp) TreeTickOnce = 0"
  "count_list (tick_world m :: 'c event list) TreeTickOnce = 0"
  by (simp_all add: cycle_pre_def cycle_post_def tick_world_def)

lemma cycle_state_fields:
  "timestamp_last_run (cycle_state m inp) = elapsed_seconds (timestamp inp)"
  "running (cycle_state m inp) = (running m \<and> status_after_tick inp = RUNNING)"
  "agent (cycle_state m inp) = agent m"
  "watchdog (cycle_state m inp) = watchdog m"
  "tree_status (cycle_state m inp) = status_after_tick inp"
  by (simp_all add: cycle_state_def)

lemma tick_scenario_stamps:
  assumes "tick_scenario m inp = (m', evs, err)"
  shows "cycle_stamps evs = (if newer m inp then [elapsed_seconds (timestamp inp)] else [])"
    and "timestamp_last_run m' =
           (if newer m inp then elapsed_seconds (timestamp inp) else timestamp_last_run m)"
  using assms
  by (auto simp: tick_scenario_result cycle_stamps_append cycle_stamps_parts cycle_state_fields
           split: if_splits)

lemma tick_all_stamps:
  assumes "tick_all m inps = (m', evs, err)"
  shows "prefix (cycle_stamps evs)
           (new_timestamps (timestamp_last_run m) (map (\<lambda>x. elapsed_seconds (timestamp (snd x))) inps))
       \<and> (err = None \<longrightarrow> cycle_stamps evs =
            new_timestamps (timestamp_last_run m) (map (\<lambda>x. elapsed_seconds (timestamp (snd x))) inps))
       \<and> timestamp_last_run m' = last (timestamp_last_run m # cycle_stamps evs)"
  using assms
proof (induction inps arbitrary: m m' evs err)
  case Nil
  then show ?case by simp
next
  case (Cons x rest)
  obtain wd inp where x: "x = (wd, inp)" by (cases x)
  let ?m0 = "m\<lparr>watchdog := \<lparr>alive = wd\<rparr>\<rparr>"
  obtain m1 evs1 err1 where t: "tick_scenario ?m0 inp = (m1, evs1, err1)"
    by (cases "tick_scenario ?m0 inp")
  note s = tick_scenario_stamps[OF t]
  have nw: "newer ?m0 inp = (timestamp_last_run m < elapsed_seconds (timestamp inp))"
    by (simp add: newer_def)
  show ?case
  proof (cases err1)
    case (Some e)
    with Cons.prems x t have "m' = m1" "evs = evs1" "err = Some e" by auto
    then show ?thesis using s nw x by auto
  next
    case None
    obtain m2 evs2 err2 where r: "tick_all m1 rest = (m2, evs2, err2)"
      by (cases "tick_all m1 rest")
    with Cons.prems x t None have e: "m' = m2" "evs = evs1 @ evs2" "err = err2" by auto
    from Cons.IH[OF r] show ?thesis
      using s nw x e by (auto simp: cycle_stamps_append)
  qed
qed

lemma new_timestamps_sorted: "sorted_wrt (<) (l # new_timestamps l ts)"
proof (induction ts arbitrary: l)
  case Nil
  then show ?case by simp
next
  case (Cons t ts)
  show ?case
  proof (cases "l < t")
    case True
    from Cons.IH[of t] have "sorted_wrt (<) (t # new_timestamps t ts)" .
    with True show ?thesis by auto
  next
    case False
    with Cons.IH[of l] show ?thesis by simp
  qed
qed

lemma sorted_wrt_prefix: "prefix xs ys \<Longrightarrow> sorted_wrt P (l # ys) \<Longrightarrow> sorted_wrt P (l # xs)"
  by (auto simp: prefix_def sorted_wrt_append)

lemma tick_scenario_cases:
  assumes "tick_scenario m inp = (m', evs, err)"
  obtains (old) "\<not> newer m inp" "m' = m" "evs = tick_world m" "err = None"
    | (raised) "newer m inp" "no_actor m" "m' = cycle_state m inp" "evs = cycle_pre m inp"
        "err = Some IndexError"
    | (ran) "newer m inp" "\<not> no_actor m" "m' = cycle_state m inp"
        "evs = cycle_pre m inp @ cycle_post m inp @ tick_world (cycle_state m inp)"
        "err = None"
proof (cases "newer m inp")
  case False
  have "tick_scenario m inp = (m, tick_world m, None)"
    using False by (simp add: tick_scenario_result)
  with assms have e: "(m', evs, err) = (m, tick_world m, None)" by (rule trans[OF sym])
  show ?thesis
  proof (rule old)
    show "\<not> newer m inp" by fact
    show "m' = m" "evs = tick_world m" "err = None" using e by (simp_all only: prod.inject)
  qed
next
  case True
  show ?thesis
  proof (cases "no_actor m")
    case na: True
    have "tick_scenario m inp = (cycle_state m inp, cycle_pre m inp, Some IndexError)"
      using True na by (simp add: tick_scenario_result)
    with assms have e: "(m', evs, err) = (cycle_state m inp, cycle_pre m inp, Some IndexError)"
      by (rule trans[OF sym])
    show ?thesis
    proof (rule raised)
      show "newer m inp" "no_actor m" by fact+
      show "m' = cycle_state m inp" "evs = cycle_pre m inp" "err = Some IndexError"
        using e by (simp_all only: prod.inject)
    qed
  next
    case na: False
    have "tick_scenario m inp = (cycle_state m inp,
            cycle_pre m inp @ cycle_post m inp @ tick_world (cycle_state m inp), None)"
      using True na by (simp add: tick_scenario_result)
    with assms have e: "(m', evs, err) = (cycle_state m inp,
            cycle_pre m inp @ cycle_post m inp @ tick_world (cycle_state m inp), None)"
      by (rule trans[OF sym])
    show ?thesis
    proof (rule ran)
      show "newer m inp" "\<not> no_actor m" by fact+
      show "m' = cycle_state m inp"
        "evs = cycle_pre m inp @ cycle_post m inp @ tick_world (cycle_state m inp)"
        "err = None"
        using e by (simp_all only: prod.inject)
    qed
  qed
qed

lemma set_tick_world: "set (tick_world m) \<subseteq> {WorldTick}"
  by (auto simp: tick_world_def)

lemma cycle_pre_members:
  "WatchdogUpdate \<in> set (cycle_pre m inp)"
  "GameTimeTick (timestamp inp) \<in> set (cycle_pre m inp)"
  "DataProviderTick \<in> set (cycle_pre m inp)"
  "TreeTickOnce \<in> set (cycle_pre m inp)"
  by (simp_all add: cycle_pre_def)

lemma tick_scenario_steps_iff:
  assumes "tick_scenario m inp = (m', evs, err)"
  shows "filter is_step evs \<noteq> [] \<longleftrightarrow> newer m inp"
  using assms
  by (cases rule: tick_scenario_cases) (simp_all add: filter_step_parts)

lemma tick_scenario_newer:
  assumes "tick_scenario m inp = (m', evs, err)" "newer m inp"
  shows "timestamp_last_run m' = elapsed_seconds (timestamp inp)"
    and "{WatchdogUpdate, GameTimeTick (timestamp inp), DataProviderTick, TreeTickOnce}
              \<subseteq> set evs"
  using assms
  by (cases rule: tick_scenario_cases; simp add: cycle_state_fields cycle_pre_members)+

lemma tick_scenario_not_newer:
  assumes "tick_scenario m inp = (m', evs, err)" "\<not> newer m inp"
  shows "m' = m" and "set evs \<subseteq> {WorldTick}"
  using assms set_tick_world[of m]
  by (cases rule: tick_scenario_cases; simp)+

lemma tick_scenario_manager0_input1:
  "tick_scenario manager0 input1 =
     (manager0\<lparr>timestamp_last_run := 1\<rparr>,
      [WatchdogUpdate, GameTimeTick \<lparr>frame = 1, elapsed_seconds = 1\<rparr>, DataProviderTick,
       AgentCall, TreeTickOnce, ApplyControl 7 (), WorldTick], None)"
  by (simp add: tick_scenario_def tick_cycle_def tick_world_def get_status_def)

lemma tick_scenario_duplicate:
  "tick_scenario (manager0\<lparr>timestamp_last_run := 1\<rparr>) input1 =
     (manager0\<lparr>timestamp_last_run := 1\<rparr>, [WorldTick], None)"
  by (simp add: tick_scenario_def tick_world_def get_status_def)

lemma tick_scenario_manager1_input2:
  "tick_scenario (manager0\<lparr>timestamp_last_run := 1\<rparr>) input2 =
     (manager0\<lparr>timestamp_last_run := 2, tree_status := SUCCESS, running := False\<rparr>,
      [WatchdogUpdate, GameTimeTick \<lparr>frame = 2, elapsed_seconds = 2\<rparr>, DataProviderTick,
       AgentCall, TreeTickOnce, ApplyControl 7 ()], None)"
  by (simp add: tick_scenario_def tick_cycle_def tick_world_def get_status_def)

lemma tick_scenario_stopped:
  "tick_scenario (manager0\<lparr>timestamp_last_run := 2, tree_status := SUCCESS, running := False\<rparr>)
     input1 =
     (manager0\<lparr>timestamp_last_run := 2, tree_status := SUCCESS, running := False\<rparr>, [], None)"
  by (simp add: tick_scenario_def tick_world_def get_status_def)

lemma tick_scenario_challenge:
  "tick_scenario (manager0\<lparr>challenge_mode := True\<rparr>) input2 =
     (manager0\<lparr>challenge_mode := True, timestamp_last_run := 2, tree_status := SUCCESS,
        running := False\<rparr>,
      [WatchdogUpdate, GameTimeTick \<lparr>frame = 2, elapsed_seconds = 2\<rparr>, DataProviderTick,
       AgentCall, TreeTickOnce, SpectatorSetTransform 7, ApplyControl 7 ()], None)"
  by (simp add: tick_scenario_def tick_cycle_def tick_world_def get_status_def)

lemma tick_all_two:
  "tick_all manager0 [(True, input1), (True, input1)] =
     (manager0\<lparr>timestamp_last_run := 1\<rparr>,
      [WatchdogUpdate, GameTimeTick \<lparr>frame = 1, elapsed_seconds = 1\<rparr>, DataProviderTick,
       AgentCall, TreeTickOnce, ApplyControl 7 (), WorldTick, WorldTick], None)"
  using tick_scenario_manager0_input1 tick_scenario_duplicate
  by simp

lemma tick_all_four:
  "tick_all manager0 [(True, input1), (True, input1), (True, input2), (True, input1)] =
     (manager0\<lparr>timestamp_last_run := 2, tree_status := SUCCESS, running := False\<rparr>,
      [WatchdogUpdate, GameTimeTick \<lparr>frame = 1, elapsed_seconds = 1\<rparr>, DataProviderTick,
       AgentCall, TreeTickOnce, ApplyControl 7 (), WorldTick, WorldTick,
       WatchdogUpdate, GameTimeTick \<lparr>frame = 2, elapsed_seconds = 2\<rparr>, DataProviderTick,
       AgentCall, TreeTickOnce, ApplyControl 7 ()], None)"
  using tick_scenario_manager0_input1 tick_scenario_duplicate tick_scenario_manager1_input2
    tick_scenario_stopped
  by simp

lemma tick_scenario_world_tick:
  assumes "tick_scenario m inp = (m', evs, err)"
  shows "count_list evs WorldTick \<le> 1"
    and "WorldTick \<in> set evs \<longleftrightarrow>
           err = None \<and> agent m \<noteq> None \<and> running m' \<and> get_status (watchdog m)"
    and "agent m' = agent m" and "running m' \<longrightarrow> running m"
    and "watchdog m' = watchdog m"
proof -
  have w: "\<And>n. (WorldTick \<in> set (tick_world n :: 'b event list)) =
             (agent n \<noteq> None \<and> running n \<and> get_status (watchdog n))"
    by (simp add: tick_world_def)
  have p: "WorldTick \<notin> set (cycle_pre m inp)" "WorldTick \<notin> set (cycle_post m inp)"
    by (simp_all add: cycle_pre_def cycle_post_def)
  show "count_list evs WorldTick \<le> 1"
    using assms by (cases rule: tick_scenario_cases) (simp_all add: world_tick_parts)
  show "WorldTick \<in> set evs \<longleftrightarrow>
           err = None \<and> agent m \<noteq> None \<and> running m' \<and> get_status (watchdog m)"
    using assms by (cases rule: tick_scenario_cases) (simp_all add: w p cycle_state_fields)
  show "agent m' = agent m"
    using assms by (cases rule: tick_scenario_cases) (simp_all add: cycle_state_fields)
  show "running m' \<longrightarrow> running m"
    using assms by (cases rule: tick_scenario_cases) (simp_all add: cycle_state_fields)
  show "watchdog m' = watchdog m"
    using assms by (cases rule: tick_scenario_cases) (simp_all add: cycle_state_fields)
qed

lemma tick_all_world_tick:
  assumes "tick_all m inps = (m', evs, err)"
  shows "count_list evs WorldTick \<le> length inps
       \<and> (agent m = None \<or> \<not> running m \<or> (\<forall>x \<in> set inps. \<not> fst x) \<longrightarrow> WorldTick \<notin> set evs)
       \<and> agent m' = agent m \<and> (running m' \<longrightarrow> running m)"
  using assms
proof (induction inps arbitrary: m m' evs err)
  case Nil
  then show ?case by simp
next
  case (Cons x rest)
  obtain wd inp where x: "x = (wd, inp)" by (cases x)
  let ?m0 = "m\<lparr>watchdog := \<lparr>alive = wd\<rparr>\<rparr>"
  obtain m1 evs1 err1 where t: "tick_scenario ?m0 inp = (m1, evs1, err1)"
    by (cases "tick_scenario ?m0 inp")
  note f = tick_scenario_world_tick[OF t]
  have one: "count_list evs1 WorldTick \<le> 1" by (rule f(1))
  have keep: "agent m1 = agent m" "running m1 \<longrightarrow> running m"
    using f(3,4) by simp_all
  have iff: "WorldTick \<in> set evs1 \<longrightarrow> agent m \<noteq> None \<and> running m \<and> wd"
    using f(2) keep by (simp add: get_status_def)
  show ?case
  proof (cases err1)
    case (Some e)
    with Cons.prems x t have "m' = m1" "evs = evs1" by auto
    then show ?thesis using one iff keep x by auto
  next
    case None
    obtain m2 evs2 err2 where r: "tick_all m1 rest = (m2, evs2, err2)"
      by (cases "tick_all m1 rest")
    with Cons.prems x t None have e: "m' = m2" "evs = evs1 @ evs2" by auto
    from Cons.IH[OF r] show ?thesis
      using one iff keep x e by auto
  qed
qed

text \<open>
  C1. A call of \<^verbatim>\<open>_tick_scenario\<close> runs the cycle exactly when the elapsed seconds
  of its timestamp are strictly greater than the stored \<^verbatim>\<open>_timestamp_last_run\<close>; it
  then stores the new value, and otherwise leaves the manager as it was and makes no
  call but, at most, the world tick. Over any sequence of calls the cycles run for the
  strictly new timestamps of the sequence and for no other (up to the first exception),
  their elapsed seconds increase strictly from the initial stored value, and the value
  stored in the end is that of the last cycle.
\<close>

theorem tick_scenario_only_newer:
  assumes "tick_scenario m inp = (m', evs, err)"
    and "tick_all m0 inps = (m'', evs', err')"
  shows "(filter is_step evs \<noteq> [] \<longleftrightarrow> timestamp_last_run m < elapsed_seconds (timestamp inp))
       \<and> (timestamp_last_run m < elapsed_seconds (timestamp inp) \<longrightarrow>
            timestamp_last_run m' = elapsed_seconds (timestamp inp)
          \<and> {WatchdogUpdate, GameTimeTick (timestamp inp), DataProviderTick, TreeTickOnce}
              \<subseteq> set evs)
       \<and> (\<not> timestamp_last_run m < elapsed_seconds (timestamp inp) \<longrightarrow>
            m' = m \<and> set evs \<subseteq> {WorldTick})
       \<and> prefix (cycle_stamps evs')
           (new_timestamps (timestamp_last_run m0)
              (map (\<lambda>x. elapsed_seconds (timestamp (snd x))) inps))
       \<and> (err' = None \<longrightarrow> cycle_stamps evs' =
            new_timestamps (timestamp_last_run m0)
              (map (\<lambda>x. elapsed_seconds (timestamp (snd x))) inps))
       \<and> sorted_wrt (<) (timestamp_last_run m0 # cycle_stamps evs')
       \<and> timestamp_last_run m'' = last (timestamp_last_run m0 # cycle_stamps evs')"
proof -
  have a: "filter is_step evs \<noteq> [] \<longleftrightarrow> timestamp_last_run m < elapsed_seconds (timestamp inp)"
    using tick_scenario_steps_iff[OF assms(1)] by (simp add: newer_def)
  have b: "timestamp_last_run m < elapsed_seconds (timestamp inp) \<longrightarrow>
            timestamp_last_run m' = elapsed_seconds (timestamp inp)
          \<and> {WatchdogUpdate, GameTimeTick (timestamp inp), DataProviderTick, TreeTickOnce}
              \<subseteq> set evs"
    using tick_scenario_newer[OF assms(1)] unfolding newer_def by (intro impI conjI)
  have c: "\<not> timestamp_last_run m < elapsed_seconds (timestamp inp) \<longrightarrow>
            m' = m \<and> set evs \<subseteq> {WorldTick}"
    using tick_scenario_not_newer[OF assms(1)] unfolding newer_def by (intro impI conjI)
  note d = tick_all_stamps[OF assms(2)]
  have d1: "prefix (cycle_stamps evs')
           (new_timestamps (timestamp_last_run m0)
              (map (\<lambda>x. elapsed_seconds (timestamp (snd x))) inps))"
    using d by (rule conjunct1)
  have d2: "err' = None \<longrightarrow> cycle_stamps evs' =
            new_timestamps (timestamp_last_run m0)
              (map (\<lambda>x. elapsed_seconds (timestamp (snd x))) inps)"
    using d by (elim conjE)
  have d3: "timestamp_last_run m'' = last (timestamp_last_run m0 # cycle_stamps evs')"
    using d by (elim conjE)
  have e: "sorted_wrt (<) (timestamp_last_run m0 # cycle_stamps evs')"
    by (rule sorted_wrt_prefix[OF d1 new_timestamps_sorted])
  from a b c d1 d2 e d3 show ?thesis by (intro conjI)
qed

theorem tick_scenario_only_newer_witness:
  "tick_scenario manager0 input1 =
     (manager0\<lparr>timestamp_last_run := 1\<rparr>,
      [WatchdogUpdate, GameTimeTick \<lparr>frame = 1, elapsed_seconds = 1\<rparr>, DataProviderTick,
       AgentCall, TreeTickOnce, ApplyControl 7 (), WorldTick], None)
   \<and> tick_all manager0 [(True, input1), (True, input1), (True, input2), (True, input1)] =
     (manager0\<lparr>timestamp_last_run := 2, tree_status := SUCCESS, running := False\<rparr>,
      [WatchdogUpdate, GameTimeTick \<lparr>frame = 1, elapsed_seconds = 1\<rparr>, DataProviderTick,
       AgentCall, TreeTickOnce, ApplyControl 7 (), WorldTick, WorldTick,
       WatchdogUpdate, GameTimeTick \<lparr>frame = 2, elapsed_seconds = 2\<rparr>, DataProviderTick,
       AgentCall, TreeTickOnce, ApplyControl 7 ()], None)
   \<and> timestamp_last_run manager0 < elapsed_seconds (timestamp input1)
   \<and> cycle_stamps
        [WatchdogUpdate, GameTimeTick \<lparr>frame = 1, elapsed_seconds = 1\<rparr>, DataProviderTick,
         AgentCall, TreeTickOnce, ApplyControl 7 (), WorldTick, WorldTick,
         WatchdogUpdate, GameTimeTick \<lparr>frame = 2, elapsed_seconds = 2\<rparr>, DataProviderTick,
         AgentCall, TreeTickOnce, ApplyControl 7 ()] = new_timestamps 0 [1, 1, 2, 1]
   \<and> new_timestamps 0 [1, 1, 2, 1] = [1, 2]"
  using tick_scenario_only_newer [OF tick_scenario_manager0_input1 tick_all_four]
    tick_scenario_manager0_input1 tick_all_four
  by simp

text \<open>
  C2, as amended. The external clock is advanced at most once per call of
  \<^verbatim>\<open>_tick_scenario\<close>, that is per observed timestamp, new or not: exactly when the call
  raised nothing, an agent is attached, the running flag is true on line 256 and the
  watchdog is alive. It is never advanced when the running flag is false, when the
  watchdog is not alive, or when no agent is attached; over a sequence of calls the
  advances are at most as many as the calls.
\<close>

theorem world_tick_per_call:
  assumes "tick_scenario m inp = (m', evs, err)"
    and "tick_all m0 inps = (m'', evs', err')"
  shows "count_list evs WorldTick \<le> 1
       \<and> (WorldTick \<in> set evs \<longleftrightarrow>
            err = None \<and> agent m \<noteq> None \<and> running m' \<and> get_status (watchdog m))
       \<and> (running m' \<longrightarrow> running m)
       \<and> count_list evs' WorldTick \<le> length inps
       \<and> (agent m0 = None \<or> \<not> running m0 \<or> (\<forall>x \<in> set inps. \<not> fst x)
            \<longrightarrow> WorldTick \<notin> set evs')"
proof -
  note f = tick_scenario_world_tick[OF assms(1)]
  note g = tick_all_world_tick[OF assms(2)]
  have g1: "count_list evs' WorldTick \<le> length inps" using g by (elim conjE)
  have g2: "agent m0 = None \<or> \<not> running m0 \<or> (\<forall>x \<in> set inps. \<not> fst x)
            \<longrightarrow> WorldTick \<notin> set evs'" using g by (elim conjE)
  from f(1) f(2) f(4) g1 g2 show ?thesis by (intro conjI)
qed

theorem world_tick_per_call_witness:
  "tick_scenario manager0 input1 =
     (manager0\<lparr>timestamp_last_run := 1\<rparr>,
      [WatchdogUpdate, GameTimeTick \<lparr>frame = 1, elapsed_seconds = 1\<rparr>, DataProviderTick,
       AgentCall, TreeTickOnce, ApplyControl 7 (), WorldTick], None)
   \<and> tick_all (manager0\<lparr>agent := None\<rparr>) [(True, input1), (True, input1)] =
     (manager0\<lparr>agent := None, timestamp_last_run := 1\<rparr>,
      [WatchdogUpdate, GameTimeTick \<lparr>frame = 1, elapsed_seconds = 1\<rparr>, DataProviderTick,
       TreeTickOnce], None)
   \<and> agent (manager0\<lparr>agent := None\<rparr>) = None
   \<and> WorldTick \<notin> set [WatchdogUpdate, GameTimeTick \<lparr>frame = 1, elapsed_seconds = 1\<rparr>,
        DataProviderTick, TreeTickOnce :: unit event]
   \<and> count_list [WatchdogUpdate, GameTimeTick \<lparr>frame = 1, elapsed_seconds = 1\<rparr>,
        DataProviderTick, AgentCall, TreeTickOnce, ApplyControl 7 (), WorldTick] WorldTick
       \<le> (1 :: nat)"
proof -
  have ta: "tick_all (manager0\<lparr>agent := None\<rparr>) [(True, input1), (True, input1)] =
     (manager0\<lparr>agent := None, timestamp_last_run := 1\<rparr>,
      [WatchdogUpdate, GameTimeTick \<lparr>frame = 1, elapsed_seconds = 1\<rparr>, DataProviderTick,
       TreeTickOnce :: unit event], None)"
    by (simp add: tick_scenario_def tick_cycle_def tick_world_def get_status_def)
  show ?thesis
    using world_tick_per_call [OF tick_scenario_manager0_input1 ta]
      tick_scenario_manager0_input1 ta
    by simp
qed

text \<open>
  C2 as stated fails: the same timestamp observed twice, with an agent attached, the
  loop running and the watchdog alive, is one strictly new timestamp and two advances of
  the external clock, since line 256 is outside the test of line 223.
\<close>

theorem world_tick_duplicate_counterexample:
  "\<not> (count_list (fst (snd (tick_all manager0 [(True, input1), (True, input1)]))) WorldTick
        \<le> length (new_timestamps (timestamp_last_run manager0)
                     [elapsed_seconds (timestamp input1),
                      elapsed_seconds (timestamp input1)]))"
  unfolding tick_all_two by simp

text \<open>
  C5. The signal handler always sets the running flag to false and changes nothing
  else; with the watchdog alive it raises nothing, with the watchdog expired it raises
  the timeout \<^verbatim>\<open>RuntimeError\<close>.
\<close>

theorem signal_handler_cancel:
  "running (fst (signal_handler m)) = False
   \<and> fst (signal_handler m) = m\<lparr>running := False\<rparr>
   \<and> (get_status (watchdog m) \<longrightarrow> snd (signal_handler m) = None)
   \<and> (\<not> get_status (watchdog m) \<longrightarrow>
        snd (signal_handler m) =
          Some (RuntimeError ''Timeout occured during scenario execution''))"
  by (simp add: signal_handler_def get_running_status_def Let_def)

theorem signal_handler_cancel_witness:
  "signal_handler manager0 = (manager0\<lparr>running := False\<rparr>, None)
   \<and> signal_handler (manager0\<lparr>watchdog := \<lparr>alive = False\<rparr>\<rparr>) =
       (manager0\<lparr>watchdog := \<lparr>alive = False\<rparr>, running := False\<rparr>,
        Some (RuntimeError ''Timeout occured during scenario execution''))"
  using signal_handler_cancel [of manager0]
    signal_handler_cancel [of "manager0\<lparr>watchdog := \<lparr>alive = False\<rparr>\<rparr>"]
  by (simp add: get_status_def prod_eq_iff)

text \<open>
  C10. \<^verbatim>\<open>get_running_status\<close> is the watchdog's liveness flag and does not depend on
  the running flag: it is true after a cancellation with the watchdog alive, and false
  with the watchdog expired while the running flag is true.
\<close>

theorem get_running_status_watchdog:
  "get_running_status m = alive (watchdog m)
   \<and> get_running_status (m\<lparr>running := r\<rparr>) = get_running_status m
   \<and> get_running_status (fst (signal_handler m)) = get_running_status m
   \<and> (alive (watchdog m) \<longrightarrow>
        \<not> running (fst (signal_handler m)) \<and> get_running_status (fst (signal_handler m)))
   \<and> (\<not> alive (watchdog m) \<longrightarrow>
        \<not> get_running_status (m\<lparr>running := True\<rparr>) \<and> running (m\<lparr>running := True\<rparr>))"
  by (simp add: get_running_status_def get_status_def signal_handler_def Let_def)

theorem get_running_status_watchdog_witness:
  "get_running_status (fst (signal_handler manager0))
   \<and> \<not> running (fst (signal_handler manager0))
   \<and> \<not> get_running_status (manager0\<lparr>watchdog := \<lparr>alive = False\<rparr>\<rparr>)
   \<and> running (manager0\<lparr>watchdog := \<lparr>alive = False\<rparr>\<rparr>)"
  using get_running_status_watchdog [of manager0 True]
    get_running_status_watchdog [of "manager0\<lparr>watchdog := \<lparr>alive = False\<rparr>\<rparr>" True]
  by simp




text \<open>
  C7. In a cycle run for a strictly newer timestamp the steps are made in the order of
  the specification: the watchdog refresh, the clock and data updates, the agent call
  if an agent is attached, one tree tick, then the command application. The tree is
  ticked exactly once. A call that raises (no ego vehicle to index) has made the steps
  up to the tree tick, in that order, and a call that returns has made them all.
\<close>

theorem tick_scenario_order:
  assumes "tick_scenario m inp = (m', evs, err)"
    and "timestamp_last_run m < elapsed_seconds (timestamp inp)"
  shows "prefix ([WatchdogUpdate, GameTimeTick (timestamp inp), DataProviderTick]
                 @ (if agent m \<noteq> None then [AgentCall] else []) @ [TreeTickOnce])
           (filter is_step evs)
       \<and> prefix (filter is_step evs) (steps_spec m inp)
       \<and> (err = None \<longrightarrow> filter is_step evs = steps_spec m inp)
       \<and> count_list evs TreeTickOnce = 1
       \<and> (err = None \<longleftrightarrow>
            \<not> ((challenge_mode m \<or> agent m \<noteq> None) \<and> ego_vehicles m = []))"
proof -
  have n: "newer m inp" using assms(2) by (simp add: newer_def)
  from assms(1) show ?thesis
  proof (cases rule: tick_scenario_cases)
    case old
    with n show ?thesis by simp
  next
    case raised
    have f: "filter is_step evs =
        [WatchdogUpdate, GameTimeTick (timestamp inp), DataProviderTick]
        @ (if agent m \<noteq> None then [AgentCall] else []) @ [TreeTickOnce]"
      unfolding raised(4) by (rule filter_step_parts(1))
    have "prefix (filter is_step evs) (steps_spec m inp)"
      unfolding f steps_spec_def by simp
    moreover have "count_list evs TreeTickOnce = 1"
      unfolding raised(4) by (rule tree_tick_parts(1))
    moreover have "err = None \<longleftrightarrow>
            \<not> ((challenge_mode m \<or> agent m \<noteq> None) \<and> ego_vehicles m = [])"
      using raised(2,5) by (simp add: no_actor_def)
    moreover have "err = None \<longrightarrow> filter is_step evs = steps_spec m inp"
      using raised(5) by simp
    moreover have "prefix ([WatchdogUpdate, GameTimeTick (timestamp inp), DataProviderTick]
                 @ (if agent m \<noteq> None then [AgentCall] else []) @ [TreeTickOnce])
           (filter is_step evs)"
      unfolding f by simp
    ultimately show ?thesis by (intro conjI)
  next
    case ran
    have f: "filter is_step evs = steps_spec m inp"
      unfolding ran(4) steps_spec_def by (simp add: filter_step_parts)
    have "prefix (filter is_step evs) (steps_spec m inp)"
      unfolding f by simp
    moreover have "count_list evs TreeTickOnce = 1"
      unfolding ran(4) by (simp add: tree_tick_parts)
    moreover have "err = None \<longleftrightarrow>
            \<not> ((challenge_mode m \<or> agent m \<noteq> None) \<and> ego_vehicles m = [])"
      using ran(2,5) by (simp add: no_actor_def)
    moreover have "err = None \<longrightarrow> filter is_step evs = steps_spec m inp"
      using f by simp
    moreover have "prefix ([WatchdogUpdate, GameTimeTick (timestamp inp), DataProviderTick]
                 @ (if agent m \<noteq> None then [AgentCall] else []) @ [TreeTickOnce])
           (filter is_step evs)"
      unfolding f steps_spec_def by simp
    ultimately show ?thesis by (intro conjI)
  qed
qed

theorem tick_scenario_order_witness:
  "tick_scenario (manager0\<lparr>challenge_mode := True\<rparr>) input2 =
     (manager0\<lparr>challenge_mode := True, timestamp_last_run := 2, tree_status := SUCCESS,
        running := False\<rparr>,
      [WatchdogUpdate, GameTimeTick \<lparr>frame = 2, elapsed_seconds = 2\<rparr>, DataProviderTick,
       AgentCall, TreeTickOnce, SpectatorSetTransform 7, ApplyControl 7 ()], None)
   \<and> timestamp_last_run (manager0\<lparr>challenge_mode := True\<rparr>)
       < elapsed_seconds (timestamp input2)
   \<and> filter is_step
        [WatchdogUpdate, GameTimeTick \<lparr>frame = 2, elapsed_seconds = 2\<rparr>, DataProviderTick,
         AgentCall, TreeTickOnce, SpectatorSetTransform 7, ApplyControl 7 ()] =
      steps_spec (manager0\<lparr>challenge_mode := True\<rparr>) input2
   \<and> steps_spec (manager0\<lparr>challenge_mode := True\<rparr>) input2 =
      [WatchdogUpdate, GameTimeTick \<lparr>frame = 2, elapsed_seconds = 2\<rparr>, DataProviderTick,
       AgentCall, TreeTickOnce, ApplyControl 7 ()]"
proof -
  have a: "timestamp_last_run (manager0\<lparr>challenge_mode := True\<rparr>)
       < elapsed_seconds (timestamp input2)" by simp
  show ?thesis
    using tick_scenario_order [OF tick_scenario_challenge a] tick_scenario_challenge a
    by (simp add: steps_spec_def)
qed

end
